theory Spec2Isabelle
  imports Main "HOL-Library.Sublist" "HOL-Library.Char_ord" "HOL-Library.List_Lexorder"
begin

section \<open>Python strings\<close>

text \<open>
  A Python \<open>str\<close> is modelled as a \<open>string\<close>: a list of characters whose code points
  are below 256. The functions of this section are the \<open>str\<close> methods and \<open>os.path\<close>
  functions that \<open>audit_tool.py\<close> calls, restricted to that range of code points. The
  address decoder is also modelled on strings of any code points, in a section of its
  own.
\<close>

text \<open>\<open>sub in s\<close>: the substring test.\<close>

fun py_in :: "string \<Rightarrow> string \<Rightarrow> bool" where
  "py_in sub [] = (sub = [])"
| "py_in sub (c # cs) = (prefix sub (c # cs) \<or> py_in sub cs)"

text \<open>
  \<open>s.split(sep)\<close> for a separator that is not empty (an empty separator raises
  \<open>ValueError\<close>; the program only splits at \<open>'.goutputstream'\<close> and \<open>':'\<close>).
  \<open>split_from sep acc s\<close> carries the characters of the current piece, reversed.
\<close>

function split_from :: "string \<Rightarrow> string \<Rightarrow> string \<Rightarrow> string list" where
  "split_from sep acc [] = [rev acc]"
| "split_from sep acc (c # cs) =
     (if sep \<noteq> [] \<and> prefix sep (c # cs)
      then rev acc # split_from sep [] (drop (length sep) (c # cs))
      else split_from sep (c # acc) cs)"
  by pat_completeness auto
termination
  by (relation "measure (\<lambda>(sep, acc, s). length s)") (auto simp: Suc_le_eq)

definition py_split :: "string \<Rightarrow> string \<Rightarrow> string list" where
  "py_split sep s = split_from sep [] s"

text \<open>\<open>posixpath.basename\<close>: what follows the last \<open>'/'\<close>.\<close>

definition basename :: "string \<Rightarrow> string" where
  "basename p = rev (takeWhile (\<lambda>c. c \<noteq> CHR ''/'') (rev p))"

text \<open>
  \<open>posixpath.dirname\<close>: the head \<open>p[:i]\<close> up to and with the last \<open>'/'\<close>; its trailing
  slashes are stripped unless it consists of slashes only.
\<close>

definition dirname :: "string \<Rightarrow> string" where
  "dirname p =
     (let head = rev (dropWhile (\<lambda>c. c \<noteq> CHR ''/'') (rev p))
      in if head \<noteq> [] \<and> \<not> list_all (\<lambda>c. c = CHR ''/'') head
         then rev (dropWhile (\<lambda>c. c = CHR ''/'') (rev head))
         else head)"

section \<open>The file system as the program observes it\<close>

datatype node_kind = File | Dir

text \<open>
  What \<open>os.stat\<close> answers at the instant of the call: the kind of the entry a path names,
  or nothing. The empty path never names an entry (\<open>os.stat('')\<close> fails with ENOENT).
\<close>

type_synonym filesystem = "string \<rightharpoonup> node_kind"

definition os_path_exists :: "filesystem \<Rightarrow> string \<Rightarrow> bool" where
  "os_path_exists fs p = (p \<noteq> [] \<and> fs p \<noteq> None)"

definition os_path_isdir :: "filesystem \<Rightarrow> string \<Rightarrow> bool" where
  "os_path_isdir fs p = (p \<noteq> [] \<and> fs p = Some Dir)"

section \<open>The file system watcher: \<open>FileAuditHandler\<close>\<close>

text \<open>The notification that watchdog hands to a handler.\<close>

record fs_event =
  src_path :: string
  dest_path :: string
  is_directory :: bool

text \<open>
  One constructor for each \<open>logger.info\<close> format string of the handler (and the one of
  \<open>main\<close>), carrying the interpolated values:
  \<^item> \<open>TempFileCreated src original\<close>: temporary file created, source file changed;
  \<^item> \<open>DirCreated\<close>, \<open>FileCreated\<close>, \<open>DirDeleted\<close>, \<open>FileDeleted\<close>: the path;
  \<^item> \<open>Renamed src dest\<close>, \<open>Moved src dest\<close>;
  \<^item> \<open>WatchLaunched path\<close>: monitoring of the directory launched.
\<close>

datatype fs_log =
    TempFileCreated string string
  | DirCreated string
  | FileCreated string
  | DirDeleted string
  | FileDeleted string
  | Renamed string string
  | Moved string string
  | WatchLaunched string

text \<open>
  The handler object: its dictionary \<open>temporary_file_map\<close> and the lines its logger has
  written, oldest first. The dictionaries \<open>recently_created_files\<close> and
  \<open>_last_modified_time\<close> are created empty and never read or written.
\<close>

record handler =
  temporary_file_map :: "string \<rightharpoonup> string"
  logged :: "fs_log list"

definition marker :: string where
  "marker = ''.goutputstream''"

definition logger_info :: "fs_log \<Rightarrow> handler \<Rightarrow> handler" where
  "logger_info e h = h\<lparr>logged := logged h @ [e]\<rparr>"

text \<open>\<open>temp_path.split('.goutputstream')[0]\<close>, returned when it exists.\<close>

definition find_original_file :: "filesystem \<Rightarrow> string \<Rightarrow> string option" where
  "find_original_file fs temp_path =
     (let base_name = hd (py_split marker temp_path)
      in if os_path_exists fs base_name then Some base_name else None)"

text \<open>\<open>if original_path:\<close> holds for a string that is not empty; \<open>None\<close> is false.\<close>

definition on_created :: "filesystem \<Rightarrow> fs_event \<Rightarrow> handler \<Rightarrow> handler" where
  "on_created fs event h =
     (if py_in marker (basename (src_path event)) then
        (case find_original_file fs (src_path event) of
           None \<Rightarrow> h
         | Some original_path \<Rightarrow>
             if original_path \<noteq> [] then
               logger_info (TempFileCreated (src_path event) original_path)
                 (h\<lparr>temporary_file_map :=
                      (temporary_file_map h)(src_path event \<mapsto> original_path)\<rparr>)
             else h)
      else if is_directory event then logger_info (DirCreated (src_path event)) h
      else logger_info (FileCreated (src_path event)) h)"

definition on_deleted :: "fs_event \<Rightarrow> handler \<Rightarrow> handler" where
  "on_deleted event h =
     (if py_in marker (basename (src_path event)) then h
      else if is_directory event then logger_info (DirDeleted (src_path event)) h
      else logger_info (FileDeleted (src_path event)) h)"

definition on_moved :: "fs_event \<Rightarrow> handler \<Rightarrow> handler" where
  "on_moved event h =
     (if py_in marker (basename (src_path event)) then h
      else
        let src_dir = dirname (src_path event);
            dest_dir = dirname (dest_path event)
        in if src_dir = dest_dir
           then logger_info (Renamed (src_path event) (dest_path event)) h
           else logger_info (Moved (src_path event) (dest_path event)) h)"

text \<open>The lines a handler call has added to the log.\<close>

definition emitted :: "handler \<Rightarrow> handler \<Rightarrow> fs_log list" where
  "emitted h h' = drop (length (logged h)) (logged h')"

section \<open>Errors\<close>

text \<open>The exceptions that the modelled code can raise.\<close>

datatype py_error =
    ValueError
  | IndexError
  | StructError
  | FileNotFoundError
  | OSError

section \<open>More of Python's strings and integers\<close>

text \<open>
  \<open>str.isspace\<close> of one character, for code points below 256: TAB to CR, the separators
  FS to US, the space, NEL and the no-break space.
\<close>

definition py_isspace :: "char \<Rightarrow> bool" where
  "py_isspace c =
     (let n = (of_char c :: nat)
      in (9 \<le> n \<and> n \<le> 13) \<or> (28 \<le> n \<and> n \<le> 32) \<or> n = 133 \<or> n = 160)"

text \<open>\<open>Py_ISSPACE\<close>, the C locale's white space, which the integer parser skips.\<close>

definition c_isspace :: "char \<Rightarrow> bool" where
  "c_isspace c = (let n = (of_char c :: nat) in (9 \<le> n \<and> n \<le> 13) \<or> n = 32)"

text \<open>
  \<open>str.isdigit\<close>: the string is not empty and every character is a digit; below 256 the
  digits are \<open>0\<close> to \<open>9\<close> and the superscripts two, three and one.
\<close>

definition digit_char :: "char \<Rightarrow> bool" where
  "digit_char c =
     (let n = (of_char c :: nat) in (48 \<le> n \<and> n \<le> 57) \<or> n = 178 \<or> n = 179 \<or> n = 185)"

definition py_isdigit :: "string \<Rightarrow> bool" where
  "py_isdigit s = (s \<noteq> [] \<and> list_all digit_char s)"

text \<open>\<open>s.replace(old, new)\<close> for one-character \<open>old\<close> and \<open>new\<close>.\<close>

definition py_replace :: "char \<Rightarrow> char \<Rightarrow> string \<Rightarrow> string" where
  "py_replace old new s = map (\<lambda>c. if c = old then new else c) s"

text \<open>\<open>s.strip()\<close>: white space removed at both ends.\<close>

definition py_strip :: "string \<Rightarrow> string" where
  "py_strip s = rev (dropWhile py_isspace (rev (dropWhile py_isspace s)))"

text \<open>
  \<open>s.split()\<close>: the maximal runs of characters that are not white space.
  \<open>split_ws_from acc s\<close> carries the current run, reversed.
\<close>

fun split_ws_from :: "string \<Rightarrow> string \<Rightarrow> string list" where
  "split_ws_from acc [] = (if acc = [] then [] else [rev acc])"
| "split_ws_from acc (c # cs) =
     (if py_isspace c
      then (if acc = [] then split_ws_from [] cs else rev acc # split_ws_from [] cs)
      else split_ws_from (c # acc) cs)"

definition py_split_ws :: "string \<Rightarrow> string list" where
  "py_split_ws s = split_ws_from [] s"

text \<open>\<open>str(n)\<close> for a natural number: its decimal digits.\<close>

fun str_nat :: "nat \<Rightarrow> string" where
  "str_nat n =
     (if n < 10 then [char_of (48 + n)]
      else str_nat (n div 10) @ [char_of (48 + n mod 10)])"

declare str_nat.simps [simp del]

text \<open>\<open>sep.join(xs)\<close>.\<close>

fun py_join :: "string \<Rightarrow> string list \<Rightarrow> string" where
  "py_join sep [] = []"
| "py_join sep [x] = x"
| "py_join sep (x # y # ys) = x @ sep @ py_join sep (y # ys)"

subsection \<open>\<open>int(s, 16)\<close>\<close>

text \<open>
  CPython's \<open>int(s, 16)\<close> on a \<open>str\<close> (\<open>PyLong_FromUnicodeObject\<close>, then
  \<open>PyLong_FromString\<close> with base 16). First the string is made ASCII: an ASCII string
  is taken as it is; otherwise a character below 127 stays, white space becomes a space,
  and any other character (none below 256 is a decimal digit) becomes \<open>?\<close> and ends
  the string.
\<close>

fun transform_from :: "string \<Rightarrow> string" where
  "transform_from [] = []"
| "transform_from (c # cs) =
     (if (of_char c :: nat) < 127 then c # transform_from cs
      else if py_isspace c then CHR '' '' # transform_from cs
      else ''?'')"

definition to_ascii :: "string \<Rightarrow> string" where
  "to_ascii s = (if list_all (\<lambda>c. (of_char c :: nat) < 128) s then s else transform_from s)"

text \<open>
  \<open>_PyLong_DigitValue\<close>: the value of a digit or letter in bases up to 36, and 37 for
  every other character.
\<close>

definition digit_value :: "char \<Rightarrow> nat" where
  "digit_value c =
     (let n = (of_char c :: nat)
      in if 48 \<le> n \<and> n \<le> 57 then n - 48
         else if 97 \<le> n \<and> n \<le> 122 then n - 87
         else if 65 \<le> n \<and> n \<le> 90 then n - 55
         else 37)"

text \<open>
  The digit loop of \<open>long_from_binary_base\<close>: digits below the base, with single
  underscores between them. \<open>prev\<close> is the character before, \<open>v\<close> the value so far.
  The result is the value and what is left of the string, or \<open>None\<close> for a doubled or
  trailing underscore.
\<close>

fun scan_digits :: "char \<Rightarrow> int \<Rightarrow> string \<Rightarrow> (int \<times> string) option" where
  "scan_digits prev v [] = (if prev = CHR ''_'' then None else Some (v, []))"
| "scan_digits prev v (c # cs) =
     (if c = CHR ''_'' then (if prev = CHR ''_'' then None else scan_digits c v cs)
      else if digit_value c < 16 then scan_digits c (16 * v + int (digit_value c)) cs
      else if prev = CHR ''_'' then None
      else Some (v, c # cs))"

text \<open>The sign: \<open>+\<close> or \<open>-\<close>, at most one.\<close>

definition take_sign :: "string \<Rightarrow> int \<times> string" where
  "take_sign t =
     (case t of
        [] \<Rightarrow> (1, [])
      | c # r \<Rightarrow>
          if c = CHR ''+'' then (1, r) else if c = CHR ''-'' then (- 1, r) else (1, t))"

text \<open>The prefix \<open>0x\<close> or \<open>0X\<close> of base 16, and the one underscore allowed after it.\<close>

definition skip_prefix :: "string \<Rightarrow> string" where
  "skip_prefix t =
     (case t of
        a # b # r \<Rightarrow>
          if a = CHR ''0'' \<and> (b = CHR ''x'' \<or> b = CHR ''X'')
          then (case r of [] \<Rightarrow> r | u # r' \<Rightarrow> if u = CHR ''_'' then r' else r)
          else t
      | _ \<Rightarrow> t)"

text \<open>
  \<open>PyLong_FromString\<close> with base 16, on the ASCII string: leading white space, the
  sign, the prefix, no leading underscore, the digits (at least one character must be
  consumed), trailing white space, and then the end of the string. A NUL character ends
  the C string early, which the caller reports as an invalid literal; here it is a
  character that is neither digit nor white space, with the same result. Every failure
  is a \<open>ValueError\<close>.
\<close>

definition parse_literal :: "string \<Rightarrow> py_error + int" where
  "parse_literal buffer =
     (let (sign, t) = take_sign (dropWhile c_isspace buffer);
          start = skip_prefix t
      in if take 1 start = ''_'' then Inl ValueError
         else
           (case scan_digits (CHR 0x00) 0 start of
              None \<Rightarrow> Inl ValueError
            | Some (v, rest) \<Rightarrow>
                if rest = start then Inl ValueError
                else if dropWhile c_isspace rest \<noteq> [] then Inl ValueError
                else Inr (sign * v)))"

definition int_base16 :: "string \<Rightarrow> py_error + int" where
  "int_base16 s = parse_literal (to_ascii s)"

section \<open>The address decoder: \<open>hex_to_ip\<close>\<close>

text \<open>
  \<open>struct.pack("<L", n)\<close>: the four bytes of an unsigned 32-bit value, lowest first;
  \<open>struct.error\<close> (which is not a \<open>ValueError\<close>) when \<open>n\<close> is out of range.
\<close>

definition struct_pack_L :: "int \<Rightarrow> py_error + nat list" where
  "struct_pack_L n =
     (if 0 \<le> n \<and> n < 4294967296
      then Inr (map nat [n mod 256, n div 256 mod 256, n div 65536 mod 256,
                         n div 16777216 mod 256])
      else Inl StructError)"

text \<open>\<open>socket.inet_ntoa\<close>: four bytes as a dotted quad; \<open>OSError\<close> for another length.\<close>

definition inet_ntoa :: "nat list \<Rightarrow> py_error + string" where
  "inet_ntoa packed =
     (if length packed = 4 then Inr (py_join ''.'' (map str_nat packed)) else Inl OSError)"

definition invalid_ip :: string where
  "invalid_ip = ''Invalid IP''"

text \<open>The body of the \<open>try\<close>, and the function with its \<open>except ValueError\<close>.\<close>

definition hex_to_ip_body :: "string \<Rightarrow> py_error + string" where
  "hex_to_ip_body hex_ip =
     (case int_base16 hex_ip of
        Inl e \<Rightarrow> Inl e
      | Inr n \<Rightarrow> (case struct_pack_L n of Inl e \<Rightarrow> Inl e | Inr packed \<Rightarrow> inet_ntoa packed))"

definition hex_to_ip :: "string \<Rightarrow> py_error + string" where
  "hex_to_ip hex_ip =
     (case hex_to_ip_body hex_ip of
        Inl e \<Rightarrow> if e = ValueError then Inr invalid_ip else Inl e
      | Inr ip \<Rightarrow> Inr ip)"

section \<open>The address decoder on strings of any code points\<close>







section \<open>The network monitor: \<open>monitor_network\<close>\<close>

text \<open>
  The two \<open>logger.info\<close> lines of the network monitor, with the decoded address and the
  port.
\<close>

datatype net_log =
    TcpConnection string int
  | UdpConnection string int

text \<open>
  The environment of one cycle: what \<open>open(f"/proc/net/{protocol}").readlines()\<close>
  answers, the lines of the table or the exception of the read.
\<close>

record net_env =
  proc_net :: "string \<Rightarrow> py_error + string list"

text \<open>\<open>read_connections\<close>: the lines without the first, \<open>readlines()[1:]\<close>.\<close>

definition read_connections :: "net_env \<Rightarrow> string \<Rightarrow> py_error + string list" where
  "read_connections env protocol =
     (case proc_net env protocol of Inl e \<Rightarrow> Inl e | Inr lines \<Rightarrow> Inr (drop 1 lines))"

text \<open>
  The body of a \<open>for conn in ...\<close> loop up to the values of the log line:
  \<open>parts[1]\<close> raises \<open>IndexError\<close> on a line of fewer than two fields, the unpacking of
  \<open>parts[1].split(':')\<close> into two names raises \<open>ValueError\<close> unless there are exactly two
  pieces, and \<open>hex_to_ip\<close> and \<open>int(local_port, 16)\<close> raise as they do, in this order.
  Nothing in the loop catches an exception.
\<close>

definition local_endpoint :: "string \<Rightarrow> py_error + string \<times> int" where
  "local_endpoint conn =
     (let parts = py_split_ws conn
      in if length parts < 2 then Inl IndexError
         else
           (case py_split '':'' (parts ! 1) of
              [local_ip, local_port] \<Rightarrow>
                (case hex_to_ip local_ip of
                   Inl e \<Rightarrow> Inl e
                 | Inr ip \<Rightarrow>
                     (case int_base16 local_port of
                        Inl e \<Rightarrow> Inl e
                      | Inr port \<Rightarrow> Inr (ip, port)))
            | _ \<Rightarrow> Inl ValueError))"

text \<open>
  One \<open>for\<close> loop over the lines of a table: the log lines written, and the exception
  that ended the loop, if any.
\<close>

fun log_connections ::
  "(string \<Rightarrow> int \<Rightarrow> net_log) \<Rightarrow> string list \<Rightarrow> net_log list \<times> py_error option" where
  "log_connections mk [] = ([], None)"
| "log_connections mk (conn # conns) =
     (case local_endpoint conn of
        Inl e \<Rightarrow> ([], Some e)
      | Inr (ip, port) \<Rightarrow>
          (case log_connections mk conns of (evs, r) \<Rightarrow> (mk ip port # evs, r)))"

text \<open>
  One pass of the body of \<open>while True\<close>: both tables are read, then the TCP lines are
  logged, then the UDP lines. An exception leaves the loop, and with it the thread.
\<close>

definition network_cycle :: "net_env \<Rightarrow> net_log list \<times> py_error option" where
  "network_cycle env =
     (case read_connections env ''tcp'' of
        Inl e \<Rightarrow> ([], Some e)
      | Inr tcp_connections \<Rightarrow>
          (case read_connections env ''udp'' of
             Inl e \<Rightarrow> ([], Some e)
           | Inr udp_connections \<Rightarrow>
               (case log_connections TcpConnection tcp_connections of
                  (evs, Some e) \<Rightarrow> (evs, Some e)
                | (evs, None) \<Rightarrow>
                    (case log_connections UdpConnection udp_connections of
                       (evs', r) \<Rightarrow> (evs @ evs', r)))))"

text \<open>
  The loop, run over the environments of its successive cycles: the log, and the
  exception that ended the thread, if one did within these cycles.
\<close>

fun monitor_network :: "net_env list \<Rightarrow> net_log list \<times> py_error option" where
  "monitor_network [] = ([], None)"
| "monitor_network (env # envs) =
     (case network_cycle env of
        (evs, Some e) \<Rightarrow> (evs, Some e)
      | (evs, None) \<Rightarrow> (case monitor_network envs of (evs', r) \<Rightarrow> (evs @ evs', r)))"

section \<open>The process monitor: \<open>monitor_processes\<close>\<close>

text \<open>
  The three \<open>logger.info\<close> lines of the process monitor: a process started with its
  command, a process started with no command, a process ended.
\<close>

datatype proc_log =
    ProcessStarted string string
  | ProcessStartedNoCommand string
  | ProcessTerminated string

fun pid_of :: "proc_log \<Rightarrow> string" where
  "pid_of (ProcessStarted pid cmd) = pid"
| "pid_of (ProcessStartedNoCommand pid) = pid"
| "pid_of (ProcessTerminated pid) = pid"

fun is_terminated :: "proc_log \<Rightarrow> bool" where
  "is_terminated (ProcessTerminated pid) = True"
| "is_terminated e = False"

text \<open>
  The environment of one cycle: what \<open>os.listdir('/proc')\<close> answers, and what opening and
  reading \<open>/proc/<pid>/cmdline\<close> answers for each PID when the loop comes to it.
\<close>

record proc_env =
  listdir_proc :: "py_error + string list"
  read_cmdline :: "string \<Rightarrow> py_error + string"

text \<open>
  The order in which a \<open>for\<close> loop visits a Python set is not specified: it is a
  parameter, a function from the set to the list of visits. Every such order visits each
  element of a finite set once.
\<close>

type_synonym set_order = "string set \<Rightarrow> string list"

definition set_iteration :: "set_order \<Rightarrow> bool" where
  "set_iteration order = (\<forall>S. finite S \<longrightarrow> set (order S) = S \<and> distinct (order S))"

definition new_pids :: "string set \<Rightarrow> string set \<Rightarrow> string set" where
  "new_pids known_pids current_pids = current_pids - known_pids"

definition terminated_pids :: "string set \<Rightarrow> string set \<Rightarrow> string set" where
  "terminated_pids known_pids current_pids = known_pids - current_pids"

text \<open>The log line of a PID whose command line was read.\<close>

definition start_line :: "string \<Rightarrow> string \<Rightarrow> proc_log" where
  "start_line pid raw =
     (let cmd = py_strip (py_replace (CHR 0x00) CHR '' '' raw)
      in if cmd = [] then ProcessStartedNoCommand pid else ProcessStarted pid cmd)"

text \<open>
  The loop \<open>for pid in new_pids\<close>: \<open>FileNotFoundError\<close> is caught and the loop goes on;
  any other exception leaves it.
\<close>

fun log_new :: "(string \<Rightarrow> py_error + string) \<Rightarrow> string list \<Rightarrow> proc_log list \<times> py_error option" where
  "log_new rd [] = ([], None)"
| "log_new rd (pid # pids) =
     (case rd pid of
        Inl e \<Rightarrow> if e = FileNotFoundError then log_new rd pids else ([], Some e)
      | Inr raw \<Rightarrow> (case log_new rd pids of (evs, r) \<Rightarrow> (start_line pid raw # evs, r)))"

text \<open>
  One pass of the body of \<open>while True\<close>: the log lines, and the new \<open>known_pids\<close> or the
  exception that left the loop.
\<close>

definition process_cycle ::
  "set_order \<Rightarrow> proc_env \<Rightarrow> string set \<Rightarrow> proc_log list \<times> (py_error + string set)" where
  "process_cycle order env known_pids =
     (case listdir_proc env of
        Inl e \<Rightarrow> ([], Inl e)
      | Inr names \<Rightarrow>
          (let current_pids = set (filter py_isdigit names)
           in case log_new (read_cmdline env) (order (new_pids known_pids current_pids)) of
                (evs, Some e) \<Rightarrow> (evs, Inl e)
              | (evs, None) \<Rightarrow>
                  (evs @ map ProcessTerminated (order (terminated_pids known_pids current_pids)),
                   Inr current_pids)))"

fun run_process_cycles ::
  "set_order \<Rightarrow> string set \<Rightarrow> proc_env list \<Rightarrow> proc_log list \<times> (py_error + string set)" where
  "run_process_cycles order known_pids [] = ([], Inr known_pids)"
| "run_process_cycles order known_pids (env # envs) =
     (case process_cycle order env known_pids of
        (evs, Inl e) \<Rightarrow> (evs, Inl e)
      | (evs, Inr current_pids) \<Rightarrow>
          (case run_process_cycles order current_pids envs of (evs', r) \<Rightarrow> (evs @ evs', r)))"

text \<open>
  The loop, run over the environments of its successive cycles, from
  \<open>known_pids = set()\<close>.
\<close>

definition monitor_processes ::
  "set_order \<Rightarrow> proc_env list \<Rightarrow> proc_log list \<times> (py_error + string set)" where
  "monitor_processes order envs = run_process_cycles order {} envs"

section \<open>The entry point: \<open>main\<close>\<close>

text \<open>The three messages printed on the console: usage, path error, monitoring started.\<close>

datatype console =
    UsageMessage
  | PathErrorMessage string
  | MonitoringStartedMessage string

datatype thread_target = MonitorProcesses | MonitorNetwork

text \<open>
  What \<open>main\<close> does, in order, up to the first \<open>observer.join()\<close>. \<open>sys.exit\<close> ends
  the run. On the path past the two checks the calls are listed as they are made when
  none of them raises; the waiting in \<open>observer.join()\<close> and the handling of
  \<open>KeyboardInterrupt\<close> are not part of the model.
\<close>

datatype action =
    Print console
  | SysExit int
  | SetupLogger string string
  | LoggerInfo string fs_log
  | ThreadStart thread_target
  | ObserverSchedule string bool
  | ObserverStart
  | ObserverJoin

definition main :: "string list \<Rightarrow> filesystem \<Rightarrow> action list" where
  "main argv fs =
     (if length argv < 2 then [Print UsageMessage, SysExit 1]
      else
        let path = argv ! 1
        in if \<not> os_path_exists fs path \<or> \<not> os_path_isdir fs path
           then [Print (PathErrorMessage path), SysExit 1]
           else
             [SetupLogger ''file_system_log.txt'' ''FileSystem'',
              SetupLogger ''process_log.txt'' ''Process'',
              SetupLogger ''network_log.txt'' ''Network'',
              LoggerInfo ''FileSystem'' (WatchLaunched path),
              ThreadStart MonitorProcesses,
              ThreadStart MonitorNetwork,
              ObserverSchedule path True,
              ObserverStart,
              Print (MonitoringStartedMessage path),
              ObserverJoin])"

text \<open>The actions that start one of the three observers.\<close>

fun starts_observer :: "action \<Rightarrow> bool" where
  "starts_observer (ThreadStart t) = True"
| "starts_observer ObserverStart = True"
| "starts_observer a = False"

text \<open>The exit status of a run that has ended.\<close>

fun exit_status :: "action list \<Rightarrow> int option" where
  "exit_status [] = None"
| "exit_status (SysExit n # as) = Some n"
| "exit_status (a # as) = exit_status as"

section \<open>Notions for the properties of the address decoder\<close>

text \<open>A hex digit: a character whose digit value is below the base 16.\<close>

definition hexdigit :: "char \<Rightarrow> bool" where
  "hexdigit c = (digit_value c < 16)"

text \<open>The value of a string of hex digits read in the plain way, first digit highest.\<close>

definition hex_value :: "string \<Rightarrow> int" where
  "hex_value s = foldl (\<lambda>v c. 16 * v + int (digit_value c)) 0 s"

text \<open>The byte that two hex digits write, the high digit first.\<close>

definition hex_pair :: "char \<Rightarrow> char \<Rightarrow> nat" where
  "hex_pair hi lo = 16 * digit_value hi + digit_value lo"





text \<open>
  The encoding that the decoder is compared with, as the specification describes the
  kernel's interface: the address \<open>a.b.c.d\<close> is a 32-bit value whose bytes in memory are
  \<open>a\<close>, \<open>b\<close>, \<open>c\<close>, \<open>d\<close>; a little-endian machine prints that value with eight
  upper-case hex digits, so the pair of \<open>d\<close> comes first.
\<close>

definition hex_digit_char :: "nat \<Rightarrow> char" where
  "hex_digit_char n = (if n < 10 then char_of (48 + n) else char_of (55 + n))"

definition hex2 :: "nat \<Rightarrow> string" where
  "hex2 b = [hex_digit_char (b div 16), hex_digit_char (b mod 16)]"

definition kernel_hex :: "nat \<Rightarrow> nat \<Rightarrow> nat \<Rightarrow> nat \<Rightarrow> string" where
  "kernel_hex a b c d = hex2 d @ hex2 c @ hex2 b @ hex2 a"

section \<open>Outcomes and example environments\<close>

text \<open>
  The two outcomes of reading a command line that the loop \<open>for pid in new_pids\<close>
  survives: the content, or \<open>FileNotFoundError\<close> for a process that is gone.
\<close>

definition gone_or_read :: "py_error + string \<Rightarrow> bool" where
  "gone_or_read r = (case r of Inl e \<Rightarrow> e = FileNotFoundError | Inr raw \<Rightarrow> True)"

text \<open>
  A cycle of the process monitor in which \<open>/proc\<close> lists the PIDs 1, 42 and 77 among
  other entries: 1 runs \<open>/sbin/init splash\<close>, 42 is gone before its command line is
  read, and 77 has an empty command line.
\<close>

definition example_proc_env :: proc_env where
  "example_proc_env =
     \<lparr>listdir_proc = Inr [''1'', ''42'', ''cpuinfo'', ''77'', ''self''],
      read_cmdline =
        (\<lambda>pid. if pid = ''1'' then Inr (''/sbin/init'' @ [CHR 0x00] @ ''splash'' @ [CHR 0x00])
               else if pid = ''77'' then Inr []
               else Inl FileNotFoundError)\<rparr>"

text \<open>
  A cycle of the process monitor in which \<open>/proc\<close> lists the PIDs 5, 7, 8 and 9: 5 is
  gone before its command line is read, 7 has an empty command line, the read of 8 raises
  \<open>ValueError\<close> (as \<open>UnicodeDecodeError\<close>, one of its subclasses, does), and 9 runs
  \<open>bash\<close>.
\<close>

definition example_fault_env :: proc_env where
  "example_fault_env =
     \<lparr>listdir_proc = Inr [''5'', ''7'', ''8'', ''9''],
      read_cmdline =
        (\<lambda>pid. if pid = ''7'' then Inr []
               else if pid = ''8'' then Inl ValueError
               else if pid = ''9'' then Inr ''bash''
               else Inl FileNotFoundError)\<rparr>"

text \<open>
  A cycle of the network monitor in which the second record of the TCP table has no
  colon in its local-endpoint field, between two well-formed records.
\<close>

definition example_net_env :: net_env where
  "example_net_env =
     \<lparr>proc_net =
        (\<lambda>protocol.
           if protocol = ''tcp'' then
             Inr [''  sl  local_address rem_address   st'',
                  ''   0: 0100007F:0277 00000000:0000 0A'',
                  ''   1: 0100007F0277 00000000:0000 0A'',
                  ''   2: 00000000:0016 00000000:0000 0A'']
           else Inr [''  sl  local_address rem_address   st''])\<rparr>"

section \<open>Properties of the file system watcher\<close>

lemma emitted_same: "emitted h h = []"
  by (simp add: emitted_def)

lemma emitted_logger_info: "emitted h (logger_info e h) = [e]"
  by (simp add: emitted_def logger_info_def)

lemma emitted_logger_info_map:
  "emitted h (logger_info e (h\<lparr>temporary_file_map := m\<rparr>)) = [e]"
  by (simp add: emitted_def logger_info_def)

lemma temporary_file_map_logger_info:
  "temporary_file_map (logger_info e h) = temporary_file_map h"
  by (simp add: logger_info_def)

text \<open>
  Claim C8. On a deletion notification whose path has the marker \<open>.goutputstream\<close> in
  its base name, \<open>on_deleted\<close> writes no log line; on any other deletion it writes
  exactly one line, the directory-deletion line when the entry is a directory and the
  file-deletion line otherwise.
\<close>

theorem on_deleted_events:
  "(py_in marker (basename (src_path event)) \<longrightarrow> emitted h (on_deleted event h) = []) \<and>
   (\<not> py_in marker (basename (src_path event)) \<longrightarrow>
      emitted h (on_deleted event h) =
        [if is_directory event then DirDeleted (src_path event)
         else FileDeleted (src_path event)])"
  by (simp add: on_deleted_def emitted_same emitted_logger_info)

theorem on_deleted_events_witness:
  "emitted \<lparr>temporary_file_map = Map.empty, logged = [FileCreated ''/r/foo'']\<rparr>
     (on_deleted
        \<lparr>src_path = ''/r/foo.goutputstream-AB12'', dest_path = [], is_directory = False\<rparr>
        \<lparr>temporary_file_map = Map.empty, logged = [FileCreated ''/r/foo'']\<rparr>) = [] \<and>
   emitted \<lparr>temporary_file_map = Map.empty, logged = [FileCreated ''/r/foo'']\<rparr>
     (on_deleted \<lparr>src_path = ''/r/foo'', dest_path = [], is_directory = False\<rparr>
        \<lparr>temporary_file_map = Map.empty, logged = [FileCreated ''/r/foo'']\<rparr>) =
     [FileDeleted ''/r/foo''] \<and>
   emitted \<lparr>temporary_file_map = Map.empty, logged = [FileCreated ''/r/foo'']\<rparr>
     (on_deleted \<lparr>src_path = ''/r/d'', dest_path = [], is_directory = True\<rparr>
        \<lparr>temporary_file_map = Map.empty, logged = [FileCreated ''/r/foo'']\<rparr>) =
     [DirDeleted ''/r/d'']"
proof -
  let ?h = "\<lparr>temporary_file_map = Map.empty, logged = [FileCreated ''/r/foo'']\<rparr>"
  have t: "py_in marker (basename ''/r/foo.goutputstream-AB12'')"
    by code_simp
  have f: "\<not> py_in marker (basename ''/r/foo'')"
    by code_simp
  have d: "\<not> py_in marker (basename ''/r/d'')"
    by code_simp
  show ?thesis
    using t f d
      on_deleted_events [of "\<lparr>src_path = ''/r/foo.goutputstream-AB12'', dest_path = [],
        is_directory = False\<rparr>" ?h]
      on_deleted_events [of "\<lparr>src_path = ''/r/foo'', dest_path = [], is_directory = False\<rparr>" ?h]
      on_deleted_events [of "\<lparr>src_path = ''/r/d'', dest_path = [], is_directory = True\<rparr>" ?h]
    by simp
qed

text \<open>
  Claim C5, as the code has it. \<open>on_moved\<close> looks for the marker in the base name of
  the source path only. When it is there, no log line is written. Otherwise exactly one
  line is written, whatever the destination's base name: the renamed line when
  \<open>dirname\<close> of the source equals \<open>dirname\<close> of the destination, the moved line when
  they differ.
\<close>

theorem on_moved_events:
  "(py_in marker (basename (src_path event)) \<longrightarrow> emitted h (on_moved event h) = []) \<and>
   (\<not> py_in marker (basename (src_path event)) \<longrightarrow>
      emitted h (on_moved event h) =
        [if dirname (src_path event) = dirname (dest_path event)
         then Renamed (src_path event) (dest_path event)
         else Moved (src_path event) (dest_path event)])"
  by (simp add: on_moved_def emitted_same emitted_logger_info)

theorem on_moved_events_witness:
  "emitted \<lparr>temporary_file_map = Map.empty, logged = []\<rparr>
     (on_moved \<lparr>src_path = ''a/.goutputstream-AB12'', dest_path = ''a/x'', is_directory = False\<rparr>
        \<lparr>temporary_file_map = Map.empty, logged = []\<rparr>) = [] \<and>
   emitted \<lparr>temporary_file_map = Map.empty, logged = []\<rparr>
     (on_moved \<lparr>src_path = ''a/x'', dest_path = ''a/y'', is_directory = False\<rparr>
        \<lparr>temporary_file_map = Map.empty, logged = []\<rparr>) = [Renamed ''a/x'' ''a/y''] \<and>
   emitted \<lparr>temporary_file_map = Map.empty, logged = []\<rparr>
     (on_moved \<lparr>src_path = ''a/x'', dest_path = ''b/x'', is_directory = False\<rparr>
        \<lparr>temporary_file_map = Map.empty, logged = []\<rparr>) = [Moved ''a/x'' ''b/x'']"
proof -
  let ?h = "\<lparr>temporary_file_map = Map.empty, logged = []\<rparr>"
  have t: "py_in marker (basename ''a/.goutputstream-AB12'')"
    by code_simp
  have f: "\<not> py_in marker (basename ''a/x'')"
    by code_simp
  have same: "dirname ''a/x'' = dirname ''a/y''"
    by code_simp
  have other: "dirname ''a/x'' \<noteq> dirname ''b/x''"
    by code_simp
  show ?thesis
    using t f same other
      on_moved_events [of "\<lparr>src_path = ''a/.goutputstream-AB12'', dest_path = ''a/x'',
        is_directory = False\<rparr>" ?h]
      on_moved_events [of "\<lparr>src_path = ''a/x'', dest_path = ''a/y'', is_directory = False\<rparr>" ?h]
      on_moved_events [of "\<lparr>src_path = ''a/x'', dest_path = ''b/x'', is_directory = False\<rparr>" ?h]
    by simp
qed

text \<open>
  The claim as the specification states it fails: a move whose destination has the
  marker in its base name, and whose source has not, is logged.
\<close>

theorem on_moved_destination_marker_counterexample:
  "py_in marker (basename ''a/x.goutputstream-AB12'') \<and>
   emitted \<lparr>temporary_file_map = Map.empty, logged = []\<rparr>
     (on_moved
        \<lparr>src_path = ''a/x'', dest_path = ''a/x.goutputstream-AB12'', is_directory = False\<rparr>
        \<lparr>temporary_file_map = Map.empty, logged = []\<rparr>) =
     [Renamed ''a/x'' ''a/x.goutputstream-AB12'']"
proof -
  have t: "py_in marker (basename ''a/x.goutputstream-AB12'')"
    by code_simp
  have f: "\<not> py_in marker (basename ''a/x'')"
    by code_simp
  have same: "dirname ''a/x'' = dirname ''a/x.goutputstream-AB12''"
    by code_simp
  show ?thesis
    using t f same by (simp add: on_moved_def emitted_logger_info)
qed

text \<open>
  Claim C7. On a creation notification whose path has the marker in its base name, the
  derived original path is \<open>src_path.split('.goutputstream')[0]\<close>. When it exists,
  \<open>on_created\<close> stores the pair in \<open>temporary_file_map\<close> and writes exactly one line, the
  correlation line naming the original; when it does not exist, nothing is written and
  the map is unchanged. In neither case is the file-creation line written for the
  temporary name.
\<close>

theorem on_created_temp_file:
  assumes "py_in marker (basename (src_path event))"
  shows
    "(os_path_exists fs (hd (py_split marker (src_path event))) \<longrightarrow>
        emitted h (on_created fs event h) =
          [TempFileCreated (src_path event) (hd (py_split marker (src_path event)))] \<and>
        temporary_file_map (on_created fs event h) (src_path event) =
          Some (hd (py_split marker (src_path event)))) \<and>
     (\<not> os_path_exists fs (hd (py_split marker (src_path event))) \<longrightarrow>
        emitted h (on_created fs event h) = [] \<and>
        temporary_file_map (on_created fs event h) = temporary_file_map h) \<and>
     FileCreated (src_path event) \<notin> set (emitted h (on_created fs event h))"
proof (cases "os_path_exists fs (hd (py_split marker (src_path event)))")
  case True
  then have "hd (py_split marker (src_path event)) \<noteq> []"
    by (simp add: os_path_exists_def)
  with True assms show ?thesis
    by (simp add: on_created_def find_original_file_def emitted_logger_info_map
        temporary_file_map_logger_info)
next
  case False
  with assms show ?thesis
    by (simp add: on_created_def find_original_file_def emitted_same)
qed

theorem on_created_temp_file_witness:
  "py_in marker (basename ''/r/foo.goutputstream-AB12'') \<and>
   emitted \<lparr>temporary_file_map = Map.empty, logged = []\<rparr>
     (on_created [''/r/foo'' \<mapsto> File]
        \<lparr>src_path = ''/r/foo.goutputstream-AB12'', dest_path = [], is_directory = False\<rparr>
        \<lparr>temporary_file_map = Map.empty, logged = []\<rparr>) =
     [TempFileCreated ''/r/foo.goutputstream-AB12'' ''/r/foo''] \<and>
   temporary_file_map
     (on_created [''/r/foo'' \<mapsto> File]
        \<lparr>src_path = ''/r/foo.goutputstream-AB12'', dest_path = [], is_directory = False\<rparr>
        \<lparr>temporary_file_map = Map.empty, logged = []\<rparr>) ''/r/foo.goutputstream-AB12'' =
     Some ''/r/foo'' \<and>
   emitted \<lparr>temporary_file_map = Map.empty, logged = []\<rparr>
     (on_created Map.empty
        \<lparr>src_path = ''/r/foo.goutputstream-AB12'', dest_path = [], is_directory = False\<rparr>
        \<lparr>temporary_file_map = Map.empty, logged = []\<rparr>) = []"
proof -
  let ?h = "\<lparr>temporary_file_map = Map.empty, logged = []\<rparr>"
  let ?ev = "\<lparr>src_path = ''/r/foo.goutputstream-AB12'', dest_path = [], is_directory = False\<rparr>"
  have m: "py_in marker (basename (src_path ?ev))"
    by code_simp
  have o: "hd (py_split marker ''/r/foo.goutputstream-AB12'') = ''/r/foo''"
    by code_simp
  have there: "os_path_exists [''/r/foo'' \<mapsto> File] ''/r/foo''"
    by (simp add: os_path_exists_def)
  have absent: "\<not> os_path_exists Map.empty ''/r/foo''"
    by (simp add: os_path_exists_def)
  show ?thesis
    using m there absent
      on_created_temp_file [OF m, of "[''/r/foo'' \<mapsto> File]" ?h]
      on_created_temp_file [OF m, of Map.empty ?h]
    by (simp add: o)
qed

section \<open>Properties of the process monitor\<close>

lemma set_iteration_sorted: "set_iteration sorted_list_of_set"
  by (simp add: set_iteration_def)

lemma set_iterationD:
  "set_iteration order \<Longrightarrow> finite S \<Longrightarrow> set (order S) = S \<and> distinct (order S)"
  by (simp add: set_iteration_def)

lemma pid_of_start_line [simp]: "pid_of (start_line pid raw) = pid"
  by (simp add: start_line_def Let_def)

lemma start_line_not_terminated [simp]: "\<not> is_terminated (start_line pid raw)"
  by (simp add: start_line_def Let_def)

lemma log_new_no_terminated: "filter is_terminated (fst (log_new rd pids)) = []"
proof (induction pids)
  case Nil
  then show ?case by simp
next
  case (Cons p pids)
  then show ?case
    by (cases "log_new rd pids") (simp split: sum.splits)
qed

lemma log_new_pids: "e \<in> set (fst (log_new rd pids)) \<Longrightarrow> pid_of e \<in> set pids"
proof (induction pids)
  case Nil
  then show ?case by simp
next
  case (Cons p pids)
  then show ?case
    by (cases "log_new rd pids") (auto split: sum.splits if_splits)
qed

lemma log_new_other_pid:
  "pid \<notin> set pids \<Longrightarrow> filter (\<lambda>e. pid_of e = pid) (fst (log_new rd pids)) = []"
  using log_new_pids [of _ rd pids] by (auto simp: filter_empty_conv)

lemma log_new_gone:
  "rd pid = Inl FileNotFoundError \<Longrightarrow>
   filter (\<lambda>e. pid_of e = pid) (fst (log_new rd pids)) = []"
proof (induction pids)
  case Nil
  then show ?case by simp
next
  case (Cons p pids)
  then show ?case
    by (cases "log_new rd pids") (auto split: sum.splits)
qed

lemma log_new_settled:
  "\<forall>p\<in>set pids. gone_or_read (rd p) \<Longrightarrow> snd (log_new rd pids) = None"
proof (induction pids)
  case Nil
  then show ?case by simp
next
  case (Cons p pids)
  then show ?case
    by (cases "log_new rd pids") (auto simp: gone_or_read_def split: sum.splits)
qed

lemma log_new_append:
  "\<forall>p\<in>set before. gone_or_read (rd p) \<Longrightarrow>
   log_new rd (before @ rest) =
     (fst (log_new rd before) @ fst (log_new rd rest), snd (log_new rd rest))"
proof (induction before)
  case Nil
  show ?case by simp
next
  case (Cons p before)
  then show ?case
    by (cases "log_new rd before"; cases "log_new rd rest")
      (auto simp: gone_or_read_def split: sum.splits)
qed

lemma log_new_reached:
  assumes "distinct (before @ pid # after)"
    and "\<forall>p\<in>set before. gone_or_read (rd p)"
    and "rd pid = Inr raw"
  shows "filter (\<lambda>e. pid_of e = pid) (fst (log_new rd (before @ pid # after))) =
    [start_line pid raw]"
proof -
  have "pid \<notin> set before" "pid \<notin> set after"
    using assms(1) by auto
  then have "filter (\<lambda>e. pid_of e = pid) (fst (log_new rd before)) = []"
    "filter (\<lambda>e. pid_of e = pid) (fst (log_new rd after)) = []"
    by (simp_all add: log_new_other_pid)
  then show ?thesis
    using assms(3) by (cases "log_new rd after") (simp add: log_new_append [OF assms(2)])
qed

lemma log_new_fault:
  assumes "\<forall>p\<in>set before. gone_or_read (rd p)"
    and "rd pid = Inl e" and "e \<noteq> FileNotFoundError"
  shows "log_new rd (before @ pid # after) = (fst (log_new rd before), Some e)"
  using assms(2,3) by (simp add: log_new_append [OF assms(1)])

lemma terminated_other_pid:
  "pid \<notin> set pids \<Longrightarrow> filter (\<lambda>e. pid_of e = pid) (map ProcessTerminated pids) = []"
  by (induction pids) auto

lemma process_cycle_settled:
  assumes "listdir_proc env = Inr names"
    and "\<forall>p\<in>set (order (new_pids known_pids (set (filter py_isdigit names)))).
           gone_or_read (read_cmdline env p)"
  shows "process_cycle order env known_pids =
    (fst (log_new (read_cmdline env) (order (new_pids known_pids (set (filter py_isdigit names))))) @
     map ProcessTerminated (order (terminated_pids known_pids (set (filter py_isdigit names)))),
     Inr (set (filter py_isdigit names)))"
proof -
  obtain evs r where lg: "log_new (read_cmdline env)
      (order (new_pids known_pids (set (filter py_isdigit names)))) = (evs, r)"
    by (cases "log_new (read_cmdline env)
      (order (new_pids known_pids (set (filter py_isdigit names))))")
  with log_new_settled [OF assms(2)] have "r = None" by simp
  with lg assms(1) show ?thesis
    by (simp add: process_cycle_def Let_def del: set_filter)
qed

lemma process_cycle_log:
  assumes "listdir_proc env = Inr names"
  shows "fst (process_cycle order env known_pids) =
    fst (log_new (read_cmdline env) (order (new_pids known_pids (set (filter py_isdigit names))))) @
    (if snd (log_new (read_cmdline env)
          (order (new_pids known_pids (set (filter py_isdigit names))))) = None
     then map ProcessTerminated (order (terminated_pids known_pids (set (filter py_isdigit names))))
     else [])"
proof -
  obtain evs r where lg: "log_new (read_cmdline env)
      (order (new_pids known_pids (set (filter py_isdigit names)))) = (evs, r)"
    by (cases "log_new (read_cmdline env)
      (order (new_pids known_pids (set (filter py_isdigit names))))")
  with assms show ?thesis
    by (cases r) (simp_all add: process_cycle_def Let_def del: set_filter)
qed

lemma finite_new_pids: "finite (new_pids known_pids (set xs))"
  by (simp add: new_pids_def)

lemma finite_terminated_pids: "finite known_pids \<Longrightarrow> finite (terminated_pids known_pids current_pids)"
  by (simp add: terminated_pids_def)

lemma order_empty: "set_iteration order \<Longrightarrow> order {} = []"
  using set_iterationD [of order "{}"] by simp

lemma monitor_processes_first: "monitor_processes order [env] = process_cycle order env {}"
  by (cases "process_cycle order env {}")
    (simp add: monitor_processes_def split: sum.splits)

text \<open>
  Claim C1. The differ of the process monitor computes, from the previous snapshot
  \<open>known_pids\<close> and the current one, the added set as current minus previous and the
  removed set as previous minus current; a snapshot diffed against itself gives two
  empty sets. The cycle uses them so: in a cycle that no exception ends, the
  termination lines are those of the removed PIDs, the start lines are of added PIDs
  only, and when the snapshot has not changed nothing is logged.
\<close>

theorem snapshot_differ:
  assumes "set_iteration order"
    and "finite known_pids"
    and "listdir_proc env = Inr names"
    and "current_pids = set (filter py_isdigit names)"
    and "\<forall>p\<in>new_pids known_pids current_pids. gone_or_read (read_cmdline env p)"
  shows
    "new_pids known_pids current_pids = {p \<in> current_pids. p \<notin> known_pids} \<and>
     terminated_pids known_pids current_pids = {p \<in> known_pids. p \<notin> current_pids} \<and>
     new_pids current_pids current_pids = {} \<and>
     terminated_pids current_pids current_pids = {} \<and>
     pid_of ` {e \<in> set (fst (process_cycle order env known_pids)). is_terminated e} =
       terminated_pids known_pids current_pids \<and>
     pid_of ` {e \<in> set (fst (process_cycle order env known_pids)). \<not> is_terminated e} \<subseteq>
       new_pids known_pids current_pids \<and>
     (known_pids = current_pids \<longrightarrow> fst (process_cycle order env known_pids) = [])"
proof -
  let ?new = "order (new_pids known_pids current_pids)"
  let ?gone = "order (terminated_pids known_pids current_pids)"
  have fin: "finite (new_pids known_pids current_pids)"
    unfolding assms(4) by (rule finite_new_pids)
  have new: "set ?new = new_pids known_pids current_pids"
    using set_iterationD [OF assms(1) fin] by blast
  have gone: "set ?gone = terminated_pids known_pids current_pids"
    using set_iterationD [OF assms(1) finite_terminated_pids [OF assms(2)]] by blast
  have settled: "\<forall>p\<in>set (order (new_pids known_pids (set (filter py_isdigit names)))).
      gone_or_read (read_cmdline env p)"
    using assms(5) new unfolding assms(4) by simp
  have cycle: "fst (process_cycle order env known_pids) =
      fst (log_new (read_cmdline env) ?new) @ map ProcessTerminated ?gone"
    using process_cycle_settled [where order = order and known_pids = known_pids,
        OF assms(3) settled]
    unfolding assms(4) by simp
  have started: "\<not> is_terminated e" if "e \<in> set (fst (log_new (read_cmdline env) ?new))" for e
    using log_new_no_terminated [of "read_cmdline env" ?new] that
    by (simp add: filter_empty_conv)
  have a: "pid_of ` {e \<in> set (fst (process_cycle order env known_pids)). is_terminated e} =
      terminated_pids known_pids current_pids"
  proof -
    have "{e \<in> set (fst (log_new (read_cmdline env) ?new) @ map ProcessTerminated ?gone).
        is_terminated e} = ProcessTerminated ` set ?gone"
      using started by auto
    then show ?thesis
      unfolding cycle by (simp add: image_image gone)
  qed
  have b: "pid_of ` {e \<in> set (fst (process_cycle order env known_pids)). \<not> is_terminated e} \<subseteq>
      new_pids known_pids current_pids"
    unfolding cycle using log_new_pids [of _ "read_cmdline env" ?new] new by auto
  have c: "fst (process_cycle order env known_pids) = []" if "known_pids = current_pids"
    unfolding cycle using that order_empty [OF assms(1)]
    by (simp add: new_pids_def terminated_pids_def)
  from a b c show ?thesis
    by (auto simp: new_pids_def terminated_pids_def)
qed

theorem snapshot_differ_witness:
  "new_pids {''1'', ''5''} {''1'', ''42'', ''77''} = {''42'', ''77''} \<and>
   terminated_pids {''1'', ''5''} {''1'', ''42'', ''77''} = {''5''} \<and>
   new_pids {''1'', ''42'', ''77''} {''1'', ''42'', ''77''} = {} \<and>
   terminated_pids {''1'', ''42'', ''77''} {''1'', ''42'', ''77''} = {} \<and>
   fst (process_cycle sorted_list_of_set example_proc_env {''1'', ''5''}) =
     [ProcessStartedNoCommand ''77'', ProcessTerminated ''5''] \<and>
   fst (process_cycle sorted_list_of_set example_proc_env {''1'', ''42'', ''77''}) = []"
proof -
  let ?names = "[''1'', ''42'', ''cpuinfo'', ''77'', ''self'']"
  have ls: "listdir_proc example_proc_env = Inr ?names"
    by (simp add: example_proc_env_def)
  have cur: "{''1'', ''42'', ''77''} = set (filter py_isdigit ?names)"
    by code_simp
  have st: "\<forall>p\<in>new_pids {''1'', ''5''} {''1'', ''42'', ''77''}.
      gone_or_read (read_cmdline example_proc_env p)"
    by code_simp
  have st': "\<forall>p\<in>new_pids {''1'', ''42'', ''77''} {''1'', ''42'', ''77''}.
      gone_or_read (read_cmdline example_proc_env p)"
    by code_simp
  have n: "{p \<in> {''1'', ''42'', ''77''}. p \<notin> {''1'', ''5''}} = {''42'', ''77''}"
    by auto
  have t: "{p \<in> {''1'', ''5''}. p \<notin> {''1'', ''42'', ''77''}} = {''5''}"
    by auto
  have v: "fst (process_cycle sorted_list_of_set example_proc_env {''1'', ''5''}) =
     [ProcessStartedNoCommand ''77'', ProcessTerminated ''5'']"
    by code_simp
  from snapshot_differ [OF set_iteration_sorted _ ls cur st]
    snapshot_differ [OF set_iteration_sorted _ ls cur st'] n t v
  show ?thesis by simp
qed

text \<open>
  Claim C6. For a PID newly added in a cycle of the process monitor: when the read of
  its command line fails with \<open>FileNotFoundError\<close>, the process being gone, no log line
  of the cycle is about that PID; when the read succeeds and the command line (NULs
  replaced by spaces, then stripped) is empty, exactly one line is about that PID, the
  line of a process started with no command. The read of a PID takes place when the loop
  comes to it: the reads of the PIDs visited before it have each succeeded or failed
  with \<open>FileNotFoundError\<close>. What the reads after it do does not matter.
\<close>

theorem new_pid_command_line:
  assumes "set_iteration order"
    and "finite known_pids"
    and "listdir_proc env = Inr names"
    and "pid \<in> new_pids known_pids (set (filter py_isdigit names))"
  shows
    "(read_cmdline env pid = Inl FileNotFoundError \<longrightarrow>
        filter (\<lambda>e. pid_of e = pid) (fst (process_cycle order env known_pids)) = []) \<and>
     (\<forall>before after raw.
        order (new_pids known_pids (set (filter py_isdigit names))) = before @ pid # after \<and>
        (\<forall>p\<in>set before. gone_or_read (read_cmdline env p)) \<and>
        read_cmdline env pid = Inr raw \<and>
        py_strip (py_replace (CHR 0x00) CHR '' '' raw) = [] \<longrightarrow>
        filter (\<lambda>e. pid_of e = pid) (fst (process_cycle order env known_pids)) =
          [ProcessStartedNoCommand pid])"
proof -
  let ?current = "set (filter py_isdigit names)"
  let ?new = "order (new_pids known_pids ?current)"
  let ?gone = "order (terminated_pids known_pids ?current)"
  have new: "set ?new = new_pids known_pids ?current" "distinct ?new"
    using set_iterationD [OF assms(1) finite_new_pids] by blast+
  have gone: "set ?gone = terminated_pids known_pids ?current"
    using set_iterationD [OF assms(1) finite_terminated_pids [OF assms(2)]] by blast
  have "pid \<notin> set ?gone"
    using assms(4) gone by (simp add: new_pids_def terminated_pids_def)
  then have no_end: "filter (\<lambda>e. pid_of e = pid) (map ProcessTerminated ?gone) = []"
    by (rule terminated_other_pid)
  note cycle = process_cycle_log [where order = order and known_pids = known_pids, OF assms(3)]
  have a: "filter (\<lambda>e. pid_of e = pid) (fst (process_cycle order env known_pids)) = []"
    if "read_cmdline env pid = Inl FileNotFoundError"
    using log_new_gone [where rd = "read_cmdline env" and pids = ?new, OF that] no_end
    by (simp only: cycle filter_append split: if_splits) simp
  have b: "filter (\<lambda>e. pid_of e = pid) (fst (process_cycle order env known_pids)) =
      [ProcessStartedNoCommand pid]"
    if split: "?new = before @ pid # after"
      and settle: "\<forall>p\<in>set before. gone_or_read (read_cmdline env p)"
      and "read_cmdline env pid = Inr raw" "py_strip (py_replace (CHR 0x00) CHR '' '' raw) = []"
    for before after raw
  proof -
    have d: "distinct (before @ pid # after)"
      using new(2) split by simp
    have "filter (\<lambda>e. pid_of e = pid) (fst (log_new (read_cmdline env) ?new)) =
        [start_line pid raw]"
      using log_new_reached [where rd = "read_cmdline env", OF d settle that(3)] split
      by simp
    with no_end that(4) show ?thesis
      by (simp only: cycle filter_append split: if_splits) (simp add: start_line_def)
  qed
  from a b show ?thesis by blast
qed

theorem new_pid_command_line_witness:
  "sorted_list_of_set (new_pids {} (set (filter py_isdigit [''5'', ''7'', ''8'', ''9'']))) =
     [''5''] @ ''7'' # [''8'', ''9''] \<and>
   read_cmdline example_fault_env ''5'' = Inl FileNotFoundError \<and>
   filter (\<lambda>e. pid_of e = ''5'')
     (fst (process_cycle sorted_list_of_set example_fault_env {})) = [] \<and>
   read_cmdline example_fault_env ''7'' = Inr [] \<and>
   read_cmdline example_fault_env ''8'' = Inl ValueError \<and>
   filter (\<lambda>e. pid_of e = ''7'')
     (fst (process_cycle sorted_list_of_set example_fault_env {})) =
     [ProcessStartedNoCommand ''7'']"
proof -
  let ?names = "[''5'', ''7'', ''8'', ''9'']"
  have ls: "listdir_proc example_fault_env = Inr ?names"
    by (simp add: example_fault_env_def)
  have fin: "finite ({} :: string set)"
    by simp
  have m5: "''5'' \<in> new_pids {} (set (filter py_isdigit ?names))"
    by code_simp
  have m7: "''7'' \<in> new_pids {} (set (filter py_isdigit ?names))"
    by code_simp
  have ord: "sorted_list_of_set (new_pids {} (set (filter py_isdigit ?names))) =
      [''5''] @ ''7'' # [''8'', ''9'']"
    by code_simp
  have before: "\<forall>p\<in>set [''5'']. gone_or_read (read_cmdline example_fault_env p)"
    by code_simp
  have r5: "read_cmdline example_fault_env ''5'' = Inl FileNotFoundError"
    by (simp add: example_fault_env_def)
  have r7: "read_cmdline example_fault_env ''7'' = Inr []"
    by (simp add: example_fault_env_def)
  have r8: "read_cmdline example_fault_env ''8'' = Inl ValueError"
    by (simp add: example_fault_env_def)
  have e: "py_strip (py_replace (CHR 0x00) CHR '' '' []) = []"
    by (simp add: py_strip_def py_replace_def)
  from new_pid_command_line [OF set_iteration_sorted fin ls m5] r5
  have a: "filter (\<lambda>e. pid_of e = ''5'')
     (fst (process_cycle sorted_list_of_set example_fault_env {})) = []"
    by blast
  from new_pid_command_line [OF set_iteration_sorted fin ls m7] ord before r7 e
  have b: "filter (\<lambda>e. pid_of e = ''7'')
     (fst (process_cycle sorted_list_of_set example_fault_env {})) =
     [ProcessStartedNoCommand ''7'']"
    by blast
  from ord r5 a r7 r8 b show ?thesis by blast
qed

text \<open>
  Claim C10, as the code has it. On the first cycle of the process monitor the previous
  snapshot is the empty set: every PID listed is an added one and none is removed, and
  the cycle writes no termination line. Exactly one start line is written for every
  listed PID whose command line is read when the loop comes to it, that is, when the
  reads of the PIDs visited before it have each succeeded or failed with
  \<open>FileNotFoundError\<close>. A read that raises another exception ends the loop: that PID
  and the PIDs after it get no line. When no read does so, the new snapshot is the set
  of the listed PIDs.
\<close>

theorem first_cycle_reports_live_processes:
  assumes "set_iteration order"
    and "listdir_proc env = Inr names"
  shows
    "new_pids {} (set (filter py_isdigit names)) = set (filter py_isdigit names) \<and>
     terminated_pids {} (set (filter py_isdigit names)) = {} \<and>
     filter is_terminated (fst (monitor_processes order [env])) = [] \<and>
     (\<forall>before pid after raw.
        order (set (filter py_isdigit names)) = before @ pid # after \<and>
        (\<forall>p\<in>set before. gone_or_read (read_cmdline env p)) \<and>
        read_cmdline env pid = Inr raw \<longrightarrow>
        filter (\<lambda>e. pid_of e = pid) (fst (monitor_processes order [env])) =
          [start_line pid raw]) \<and>
     (\<forall>before pid after e.
        order (set (filter py_isdigit names)) = before @ pid # after \<and>
        (\<forall>p\<in>set before. gone_or_read (read_cmdline env p)) \<and>
        read_cmdline env pid = Inl e \<and> e \<noteq> FileNotFoundError \<longrightarrow>
        snd (monitor_processes order [env]) = Inl e \<and>
        (\<forall>q\<in>set (pid # after).
           filter (\<lambda>e. pid_of e = q) (fst (monitor_processes order [env])) = [])) \<and>
     ((\<forall>p\<in>set (filter py_isdigit names). gone_or_read (read_cmdline env p)) \<longrightarrow>
        snd (monitor_processes order [env]) = Inr (set (filter py_isdigit names)))"
proof -
  let ?current = "set (filter py_isdigit names)"
  let ?log = "fst (monitor_processes order [env])"
  have n: "new_pids {} ?current = ?current"
    by (simp add: new_pids_def)
  have t: "terminated_pids {} ?current = {}"
    by (simp add: terminated_pids_def)
  have ord: "set (order ?current) = ?current" "distinct (order ?current)"
    using set_iterationD [OF assms(1), of ?current] by simp_all
  have log: "?log = fst (log_new (read_cmdline env) (order ?current))"
    using process_cycle_log [where order = order and known_pids = "{}", OF assms(2)]
      order_empty [OF assms(1)]
    by (simp only: monitor_processes_first n t list.map append_Nil2 if_cancel)
  have none: "filter is_terminated ?log = []"
    by (simp only: log log_new_no_terminated)
  have one: "filter (\<lambda>e. pid_of e = pid) ?log = [start_line pid raw]"
    if "order ?current = before @ pid # after"
      "\<forall>p\<in>set before. gone_or_read (read_cmdline env p)"
      "read_cmdline env pid = Inr raw"
    for before pid after raw
  proof -
    have "distinct (before @ pid # after)"
      using ord(2) that(1) by simp
    from log_new_reached [where rd = "read_cmdline env", OF this that(2,3)]
    show ?thesis by (simp only: log that(1))
  qed
  have fault: "snd (monitor_processes order [env]) = Inl e \<and>
      (\<forall>q\<in>set (pid # after). filter (\<lambda>e. pid_of e = q) ?log = [])"
    if "order ?current = before @ pid # after"
      "\<forall>p\<in>set before. gone_or_read (read_cmdline env p)"
      "read_cmdline env pid = Inl e" "e \<noteq> FileNotFoundError"
    for before pid after e
  proof -
    have lg: "log_new (read_cmdline env) (order ?current) =
        (fst (log_new (read_cmdline env) before), Some e)"
      using log_new_fault [where rd = "read_cmdline env", OF that(2,3,4)]
      by (simp only: that(1))
    have "process_cycle order env {} = (fst (log_new (read_cmdline env) before), Inl e)"
      using assms(2) lg
      by (simp add: process_cycle_def Let_def n del: set_filter)
    then have "snd (monitor_processes order [env]) = Inl e"
      by (simp only: monitor_processes_first snd_conv)
    moreover have "filter (\<lambda>e. pid_of e = q) ?log = []" if "q \<in> set (pid # after)" for q
    proof -
      have "distinct (before @ pid # after)"
        using ord(2) \<open>order ?current = before @ pid # after\<close> by simp
      with that have "q \<notin> set before"
        by auto
      moreover have "?log = fst (log_new (read_cmdline env) before)"
        using lg by (simp only: log fst_conv)
      ultimately show ?thesis
        by (simp add: log_new_other_pid)
    qed
    ultimately show ?thesis by blast
  qed
  have complete: "snd (monitor_processes order [env]) = Inr ?current"
    if "\<forall>p\<in>?current. gone_or_read (read_cmdline env p)"
  proof -
    have "\<forall>p\<in>set (order (new_pids {} ?current)). gone_or_read (read_cmdline env p)"
      using that ord(1) n by simp
    from process_cycle_settled [where order = order and known_pids = "{}", OF assms(2) this]
    show ?thesis by (simp only: monitor_processes_first snd_conv)
  qed
  from n t none one fault complete show ?thesis by blast
qed

theorem first_cycle_reports_live_processes_witness:
  "monitor_processes sorted_list_of_set [example_proc_env] =
     ([ProcessStarted ''1'' ''/sbin/init splash'', ProcessStartedNoCommand ''77''],
      Inr {''1'', ''42'', ''77''}) \<and>
   filter is_terminated (fst (monitor_processes sorted_list_of_set [example_proc_env])) = [] \<and>
   filter (\<lambda>e. pid_of e = ''1'') (fst (monitor_processes sorted_list_of_set [example_proc_env])) =
     [ProcessStarted ''1'' ''/sbin/init splash''] \<and>
   filter (\<lambda>e. pid_of e = ''7'') (fst (monitor_processes sorted_list_of_set [example_fault_env])) =
     [ProcessStartedNoCommand ''7''] \<and>
   snd (monitor_processes sorted_list_of_set [example_fault_env]) = Inl ValueError"
proof -
  let ?names = "[''1'', ''42'', ''cpuinfo'', ''77'', ''self'']"
  let ?names' = "[''5'', ''7'', ''8'', ''9'']"
  have ls: "listdir_proc example_proc_env = Inr ?names"
    by (simp add: example_proc_env_def)
  have ls': "listdir_proc example_fault_env = Inr ?names'"
    by (simp add: example_fault_env_def)
  have ord: "sorted_list_of_set (set (filter py_isdigit ?names)) = [] @ ''1'' # [''42'', ''77'']"
    by code_simp
  have ord7: "sorted_list_of_set (set (filter py_isdigit ?names')) = [''5''] @ ''7'' # [''8'', ''9'']"
    by code_simp
  have ord8: "sorted_list_of_set (set (filter py_isdigit ?names')) = [''5'', ''7''] @ ''8'' # [''9'']"
    by code_simp
  have b0: "\<forall>p\<in>set []. gone_or_read (read_cmdline example_proc_env p)"
    by simp
  have b5: "\<forall>p\<in>set [''5'']. gone_or_read (read_cmdline example_fault_env p)"
    by code_simp
  have b57: "\<forall>p\<in>set [''5'', ''7'']. gone_or_read (read_cmdline example_fault_env p)"
    by code_simp
  have r1: "read_cmdline example_proc_env ''1'' =
      Inr (''/sbin/init'' @ [CHR 0x00] @ ''splash'' @ [CHR 0x00])"
    by (simp add: example_proc_env_def)
  have r7: "read_cmdline example_fault_env ''7'' = Inr []"
    by (simp add: example_fault_env_def)
  have r8: "read_cmdline example_fault_env ''8'' = Inl ValueError \<and> ValueError \<noteq> FileNotFoundError"
    by (simp add: example_fault_env_def)
  have l1: "start_line ''1'' (''/sbin/init'' @ [CHR 0x00] @ ''splash'' @ [CHR 0x00]) =
      ProcessStarted ''1'' ''/sbin/init splash''"
    by code_simp
  have l7: "start_line ''7'' [] = ProcessStartedNoCommand ''7''"
    by code_simp
  have v: "monitor_processes sorted_list_of_set [example_proc_env] =
     ([ProcessStarted ''1'' ''/sbin/init splash'', ProcessStartedNoCommand ''77''],
      Inr {''1'', ''42'', ''77''})"
    by code_simp
  note on_ok = first_cycle_reports_live_processes [OF set_iteration_sorted ls]
  note on_fault = first_cycle_reports_live_processes [OF set_iteration_sorted ls']
  have a: "filter is_terminated (fst (monitor_processes sorted_list_of_set [example_proc_env])) = []"
    using on_ok by blast
  have b: "filter (\<lambda>e. pid_of e = ''1'')
      (fst (monitor_processes sorted_list_of_set [example_proc_env])) =
      [ProcessStarted ''1'' ''/sbin/init splash'']"
    using on_ok ord b0 r1 unfolding l1 [symmetric] by blast
  have c: "filter (\<lambda>e. pid_of e = ''7'')
      (fst (monitor_processes sorted_list_of_set [example_fault_env])) =
      [ProcessStartedNoCommand ''7'']"
    using on_fault ord7 b5 r7 unfolding l7 [symmetric] by blast
  have d: "snd (monitor_processes sorted_list_of_set [example_fault_env]) = Inl ValueError"
    using on_fault ord8 b57 r8 by blast
  from v a b c d show ?thesis by blast
qed

text \<open>
  The claim as stated fails: in the cycle of \<open>example_fault_env\<close> the read of PID 8
  raises \<open>ValueError\<close>, which is not caught; PID 9 is live and its command line is
  readable, but the loop has ended and no start line is written for it.
\<close>

theorem first_cycle_unreached_counterexample:
  "''9'' \<in> set (filter py_isdigit [''5'', ''7'', ''8'', ''9'']) \<and>
   listdir_proc example_fault_env = Inr [''5'', ''7'', ''8'', ''9''] \<and>
   read_cmdline example_fault_env ''9'' = Inr ''bash'' \<and>
   monitor_processes sorted_list_of_set [example_fault_env] =
     ([ProcessStartedNoCommand ''7''], Inl ValueError) \<and>
   filter (\<lambda>e. pid_of e = ''9'')
     (fst (monitor_processes sorted_list_of_set [example_fault_env])) = []"
  by code_simp

section \<open>Properties of the address decoder\<close>

lemma hexdigit_code:
  "hexdigit c \<Longrightarrow>
   (48 \<le> (of_char c :: nat) \<and> (of_char c :: nat) \<le> 57) \<or>
   (97 \<le> (of_char c :: nat) \<and> (of_char c :: nat) \<le> 102) \<or>
   (65 \<le> (of_char c :: nat) \<and> (of_char c :: nat) \<le> 70)"
  by (auto simp: hexdigit_def digit_value_def Let_def split: if_splits)

lemma hexdigit_not_special:
  assumes "hexdigit c"
  shows "c \<noteq> CHR ''_''" "c \<noteq> CHR ''+''" "c \<noteq> CHR ''-''" "c \<noteq> CHR ''x''" "c \<noteq> CHR ''X''"
    "\<not> c_isspace c" "(of_char c :: nat) < 128"
  using hexdigit_code [OF assms] by (auto simp: c_isspace_def Let_def)

lemma special_not_hexdigit:
  "\<not> hexdigit CHR ''_''" "\<not> hexdigit CHR ''+''" "\<not> hexdigit CHR ''-''"
  "\<not> hexdigit CHR ''x''" "\<not> hexdigit CHR ''X''" "\<not> hexdigit CHR ''?''"
  by (simp_all add: hexdigit_def digit_value_def)

lemma to_ascii_hex: "list_all hexdigit s \<Longrightarrow> to_ascii s = s"
proof -
  assume "list_all hexdigit s"
  then have "list_all (\<lambda>c. (of_char c :: nat) < 128) s"
    by (auto simp: list_all_iff hexdigit_not_special(7))
  then show ?thesis by (simp add: to_ascii_def)
qed

lemma dropWhile_space_hex: "list_all hexdigit s \<Longrightarrow> dropWhile c_isspace s = s"
  by (cases s) (auto simp: hexdigit_not_special(6))

lemma take_sign_hex: "list_all hexdigit s \<Longrightarrow> take_sign s = (1, s)"
  by (cases s) (auto simp: take_sign_def hexdigit_not_special)

lemma skip_prefix_hex: "list_all hexdigit s \<Longrightarrow> skip_prefix s = s"
  by (auto simp: skip_prefix_def special_not_hexdigit split: list.splits)

lemma scan_digits_hex:
  "list_all hexdigit s \<Longrightarrow> s \<noteq> [] \<or> prev \<noteq> CHR ''_'' \<Longrightarrow>
   scan_digits prev v s = Some (foldl (\<lambda>v c. 16 * v + int (digit_value c)) v s, [])"
proof (induction s arbitrary: prev v)
  case Nil
  then show ?case by simp
next
  case (Cons c s)
  from Cons.prems have c: "hexdigit c" and s: "list_all hexdigit s"
    by simp_all
  have "scan_digits c (16 * v + int (digit_value c)) s =
      Some (foldl (\<lambda>v c. 16 * v + int (digit_value c)) (16 * v + int (digit_value c)) s, [])"
    using Cons.IH [OF s] hexdigit_not_special(1) [OF c] by blast
  with c show ?case
    by (simp add: hexdigit_not_special(1) hexdigit_def [symmetric])
qed

lemma int_base16_hex:
  assumes "list_all hexdigit s" and "s \<noteq> []"
  shows "int_base16 s = Inr (hex_value s)"
proof -
  have "take 1 s \<noteq> ''_''"
    using assms by (cases s) (auto simp: hexdigit_not_special(1))
  moreover have "scan_digits (CHR 0x00) 0 s = Some (hex_value s, [])"
    using scan_digits_hex [OF assms(1), of "CHR 0x00" 0] by (simp add: hex_value_def)
  ultimately show ?thesis
    using assms
    by (simp add: int_base16_def parse_literal_def to_ascii_hex dropWhile_space_hex
        take_sign_hex skip_prefix_hex)
qed


lemma hex_value_snoc: "hex_value (s @ [c]) = 16 * hex_value s + int (digit_value c)"
  by (simp add: hex_value_def)

lemma hex_value_bounds:
  "list_all hexdigit s \<Longrightarrow> 0 \<le> hex_value s \<and> hex_value s < 16 ^ length s"
proof (induction s rule: rev_induct)
  case Nil
  show ?case by (simp add: hex_value_def)
next
  case (snoc c s)
  then have "digit_value c < 16" and "0 \<le> hex_value s" and "hex_value s < 16 ^ length s"
    by (simp_all add: hexdigit_def)
  then show ?case
    by (simp add: hex_value_snoc)
qed

lemma split_byte:
  fixes x k :: int
  assumes "0 \<le> x" "x < 256"
  shows "(256 * k + x) div 256 = k" "(256 * k + x) mod 256 = x"
  using assms by simp_all

lemma le_bytes:
  fixes b0 b1 b2 b3 :: nat
  assumes "b0 < 256" "b1 < 256" "b2 < 256" "b3 < 256"
  defines "n \<equiv> int (16777216 * b3 + 65536 * b2 + 256 * b1 + b0)"
  shows "nat (n mod 256) = b0" "nat (n div 256 mod 256) = b1"
    "nat (n div 65536 mod 256) = b2" "nat (n div 16777216 mod 256) = b3"
    "0 \<le> n" "n < 4294967296"
proof -
  let ?k1 = "256 * (256 * int b3 + int b2) + int b1"
  let ?k2 = "256 * int b3 + int b2"
  have n: "n = 256 * ?k1 + int b0"
    by (simp add: n_def)
  have x: "0 \<le> int b0" "int b0 < 256" "0 \<le> int b1" "int b1 < 256"
    "0 \<le> int b2" "int b2 < 256" "0 \<le> int b3" "int b3 < 256"
    using assms(1-4) by simp_all
  have d1: "n div 256 = ?k1" and m0: "n mod 256 = int b0"
    unfolding n using split_byte [OF x(1,2)] by blast+
  have d2: "?k1 div 256 = ?k2" and m1: "?k1 mod 256 = int b1"
    using split_byte [OF x(3,4)] by blast+
  have d3: "?k2 div 256 = int b3" and m2: "?k2 mod 256 = int b2"
    using split_byte [OF x(5,6)] by blast+
  have m3: "int b3 mod 256 = int b3"
    using x(7,8) by simp
  have "n div (256 * 256) = n div 256 div 256"
    by (rule zdiv_zmult2_eq) simp
  then have e2: "n div 65536 = ?k2"
    using d1 d2 by simp
  have "n div (65536 * 256) = n div 65536 div 256"
    by (rule zdiv_zmult2_eq) simp
  then have e3: "n div 16777216 = int b3"
    using e2 d3 by simp
  show "nat (n mod 256) = b0" by (simp add: m0)
  show "nat (n div 256 mod 256) = b1" by (simp only: d1 m1 nat_int)
  show "nat (n div 65536 mod 256) = b2" by (simp only: e2 m2 nat_int)
  show "nat (n div 16777216 mod 256) = b3" by (simp only: e3 m3 nat_int)
  show "0 \<le> n" by (simp add: n_def)
  show "n < 4294967296" using assms(1-4) by (simp add: n_def)
qed


lemma hex_to_ip_hex:
  assumes "list_all hexdigit s" and "s \<noteq> []" and "length s \<le> 8"
  shows "hex_to_ip s =
    Inr (py_join ''.'' (map str_nat (map nat
      [hex_value s mod 256, hex_value s div 256 mod 256, hex_value s div 65536 mod 256,
       hex_value s div 16777216 mod 256])))"
proof -
  have "(16 :: int) ^ length s \<le> 16 ^ 8"
    using assms(3) by (intro power_increasing) simp_all
  with hex_value_bounds [OF assms(1)]
  have "0 \<le> hex_value s" "hex_value s < 4294967296"
    by simp_all
  then show ?thesis
    by (simp add: hex_to_ip_def hex_to_ip_body_def int_base16_hex [OF assms(1,2)]
        struct_pack_L_def inet_ntoa_def)
qed

lemma hex_pair_byte: "hexdigit hi \<Longrightarrow> hexdigit lo \<Longrightarrow> hex_pair hi lo < 256"
  by (simp add: hexdigit_def hex_pair_def)

lemma hex_to_ip_reversed_pairs:
  assumes "length s = 8" and "list_all hexdigit s"
  shows "hex_to_ip s =
    Inr (py_join ''.'' (map str_nat
      [hex_pair (s ! 6) (s ! 7), hex_pair (s ! 4) (s ! 5), hex_pair (s ! 2) (s ! 3),
       hex_pair (s ! 0) (s ! 1)]))"
proof -
  from assms(1) obtain a b c d e f g h where s: "s = [a, b, c, d, e, f, g, h]"
    by (auto simp: length_Suc_conv eval_nat_numeral)
  from assms(2) have hex: "hexdigit a" "hexdigit b" "hexdigit c" "hexdigit d"
    "hexdigit e" "hexdigit f" "hexdigit g" "hexdigit h"
    by (simp_all add: s)
  have v: "hex_value s =
      int (16777216 * hex_pair a b + 65536 * hex_pair c d + 256 * hex_pair e f + hex_pair g h)"
    by (simp add: s hex_value_def hex_pair_def)
  note bytes = le_bytes [OF hex_pair_byte [OF hex(7,8)] hex_pair_byte [OF hex(5,6)]
      hex_pair_byte [OF hex(3,4)] hex_pair_byte [OF hex(1,2)]]
  have "s \<noteq> []" "length s \<le> 8"
    by (simp_all add: s)
  from hex_to_ip_hex [OF assms(2) this]
  have "hex_to_ip s =
    Inr (py_join ''.'' (map str_nat
      [hex_pair g h, hex_pair e f, hex_pair c d, hex_pair a b]))"
    by (simp only: v bytes(1-4) list.map)
  then show ?thesis
    by (simp add: s)
qed

lemma digit_value_hex_digit_char: "n < 16 \<Longrightarrow> digit_value (hex_digit_char n) = n"
  by (auto simp: digit_value_def hex_digit_char_def Let_def)

lemma hex_pair_hex2:
  assumes "b < 256"
  shows "hexdigit (hex2 b ! 0)" "hexdigit (hex2 b ! 1)" "hex_pair (hex2 b ! 0) (hex2 b ! 1) = b"
proof -
  have "b div 16 < 16" "b mod 16 < 16"
    using assms by simp_all
  then show "hexdigit (hex2 b ! 0)" "hexdigit (hex2 b ! 1)"
    "hex_pair (hex2 b ! 0) (hex2 b ! 1) = b"
    by (simp_all add: hex2_def hexdigit_def hex_pair_def digit_value_hex_digit_char)
qed

lemma kernel_hex_round_trip:
  assumes "a < 256" "b < 256" "c < 256" "d < 256"
  shows "hex_to_ip (kernel_hex a b c d) = Inr (py_join ''.'' (map str_nat [a, b, c, d]))"
proof -
  let ?s = "kernel_hex a b c d"
  have l: "length ?s = 8"
    by (simp add: kernel_hex_def hex2_def)
  have nth: "?s ! 0 = hex2 d ! 0" "?s ! 1 = hex2 d ! 1" "?s ! 2 = hex2 c ! 0" "?s ! 3 = hex2 c ! 1"
    "?s ! 4 = hex2 b ! 0" "?s ! 5 = hex2 b ! 1" "?s ! 6 = hex2 a ! 0" "?s ! 7 = hex2 a ! 1"
    by (simp_all add: kernel_hex_def hex2_def)
  have x: "list_all hexdigit ?s"
    using hex_pair_hex2(1,2) [OF assms(1)] hex_pair_hex2(1,2) [OF assms(2)]
      hex_pair_hex2(1,2) [OF assms(3)] hex_pair_hex2(1,2) [OF assms(4)]
    by (simp add: kernel_hex_def hex2_def)
  show ?thesis
    using hex_to_ip_reversed_pairs [OF l x]
    by (simp only: nth hex_pair_hex2(3) [OF assms(1)] hex_pair_hex2(3) [OF assms(2)]
        hex_pair_hex2(3) [OF assms(3)] hex_pair_hex2(3) [OF assms(4)])
qed

text \<open>
  Claim C2. For every string of eight hex digits, \<open>hex_to_ip\<close> returns the dotted quad
  whose four numbers are the four bytes that the digit pairs write, in reversed order:
  the last pair first. It is a round trip with the kernel's encoding: the eight digits
  that the kernel writes for the address \<open>a.b.c.d\<close> decode to \<open>a.b.c.d\<close>; so
  \<open>0100007F\<close> decodes to \<open>127.0.0.1\<close>.
\<close>

theorem hex_to_ip_little_endian:
  "(length s = 8 \<and> list_all hexdigit s \<longrightarrow>
      hex_to_ip s =
        Inr (py_join ''.'' (map str_nat
          [hex_pair (s ! 6) (s ! 7), hex_pair (s ! 4) (s ! 5), hex_pair (s ! 2) (s ! 3),
           hex_pair (s ! 0) (s ! 1)]))) \<and>
   (a < 256 \<and> b < 256 \<and> c < 256 \<and> d < 256 \<longrightarrow>
      hex_to_ip (kernel_hex a b c d) = Inr (py_join ''.'' (map str_nat [a, b, c, d])))"
  using hex_to_ip_reversed_pairs [of s] kernel_hex_round_trip [of a b c d] by blast

theorem hex_to_ip_little_endian_witness:
  "length ''0100007F'' = 8 \<and> list_all hexdigit ''0100007F'' \<and>
   kernel_hex 127 0 0 1 = ''0100007F'' \<and>
   hex_to_ip ''0100007F'' = Inr ''127.0.0.1'' \<and>
   hex_to_ip (kernel_hex 192 168 1 10) = Inr ''192.168.1.10''"
proof -
  have l: "length ''0100007F'' = 8"
    by simp
  have x: "list_all hexdigit ''0100007F''"
    by code_simp
  have k: "kernel_hex 127 0 0 1 = ''0100007F''"
    by code_simp
  have r: "py_join ''.'' (map str_nat
      [hex_pair (''0100007F'' ! 6) (''0100007F'' ! 7),
       hex_pair (''0100007F'' ! 4) (''0100007F'' ! 5),
       hex_pair (''0100007F'' ! 2) (''0100007F'' ! 3),
       hex_pair (''0100007F'' ! 0) (''0100007F'' ! 1)]) = ''127.0.0.1''"
    by code_simp
  have q: "py_join ''.'' (map str_nat [192, 168, 1, 10]) = ''192.168.1.10''"
    by code_simp
  have "hex_to_ip ''0100007F'' = Inr ''127.0.0.1''"
    using hex_to_ip_little_endian [of "''0100007F''", THEN conjunct1] l x unfolding r by blast
  moreover have "hex_to_ip (kernel_hex 192 168 1 10) = Inr ''192.168.1.10''"
    using hex_to_ip_little_endian [of _ 192 168 1 10, THEN conjunct2] unfolding q by simp
  ultimately show ?thesis
    using l x k by blast
qed























text \<open>
  A string of hex digits whose value does not fit 32 bits makes \<open>struct.pack\<close> raise
  \<open>struct.error\<close>, which \<open>except ValueError\<close> does not catch.
\<close>

lemma hex_to_ip_out_of_range: "hex_to_ip ''100000000'' = Inl StructError"
  by code_simp

section \<open>Properties of the network monitor\<close>

lemma local_endpoint_malformed:
  assumes "2 \<le> length (py_split_ws conn)"
    and "length (py_split '':'' (py_split_ws conn ! 1)) \<noteq> 2"
  shows "local_endpoint conn = Inl ValueError"
proof -
  have "\<not> length (py_split_ws conn) < 2"
    using assms(1) by simp
  moreover have "(case py_split '':'' (py_split_ws conn ! 1) of
      [local_ip, local_port] \<Rightarrow> f local_ip local_port
    | _ \<Rightarrow> Inl ValueError) = Inl ValueError" for f :: "string \<Rightarrow> string \<Rightarrow> py_error + string \<times> int"
    using assms(2) by (auto split: list.splits)
  ultimately show ?thesis
    by (simp add: local_endpoint_def Let_def)
qed

lemma log_connections_abort:
  assumes "\<forall>c\<in>set before. \<not> isl (local_endpoint c)"
    and "local_endpoint conn = Inl e"
  shows "log_connections mk (before @ conn # after) =
    (map (\<lambda>c. case_prod mk (projr (local_endpoint c))) before, Some e)"
  using assms(1)
proof (induction before)
  case Nil
  with assms(2) show ?case by simp
next
  case (Cons c before)
  then obtain ip port where "local_endpoint c = Inr (ip, port)"
    by (cases "local_endpoint c") auto
  with Cons show ?case by simp
qed

lemma log_connections_all:
  assumes "\<forall>c\<in>set conns. \<not> isl (local_endpoint c)"
  shows "log_connections mk conns =
    (map (\<lambda>c. case_prod mk (projr (local_endpoint c))) conns, None)"
  using assms
proof (induction conns)
  case Nil
  show ?case by simp
next
  case (Cons c conns)
  then obtain ip port where "local_endpoint c = Inr (ip, port)"
    by (cases "local_endpoint c") auto
  with Cons show ?case by simp
qed

text \<open>
  Claim C4, as the code has it. Nothing in \<open>monitor_network\<close> catches an exception. A
  line of a connection table whose local-endpoint field does not split at \<open>':'\<close> into
  exactly two pieces raises \<open>ValueError\<close> at the unpacking: the lines before it have
  been logged, the line itself and every line after it are not, the cycle ends there and
  so does the loop. This holds for a line of the TCP table and for a line of the UDP
  table (after the whole of the TCP table has been logged).
\<close>

theorem malformed_line_ends_cycle:
  assumes "2 \<le> length (py_split_ws conn)"
    and "length (py_split '':'' (py_split_ws conn ! 1)) \<noteq> 2"
  shows
    "((\<forall>c\<in>set before. \<not> isl (local_endpoint c)) \<longrightarrow>
        log_connections mk (before @ conn # after) =
          (map (\<lambda>c. case_prod mk (projr (local_endpoint c))) before, Some ValueError)) \<and>
     (proc_net env ''tcp'' = Inr (header # before @ conn # after) \<and>
      proc_net env ''udp'' = Inr udp_lines \<and>
      (\<forall>c\<in>set before. \<not> isl (local_endpoint c)) \<longrightarrow>
        network_cycle env =
          (map (\<lambda>c. case_prod TcpConnection (projr (local_endpoint c))) before,
           Some ValueError) \<and>
        monitor_network (env # envs) = network_cycle env) \<and>
     (proc_net env ''tcp'' = Inr (header # tcp) \<and>
      (\<forall>c\<in>set tcp. \<not> isl (local_endpoint c)) \<and>
      proc_net env ''udp'' = Inr (header' # before @ conn # after) \<and>
      (\<forall>c\<in>set before. \<not> isl (local_endpoint c)) \<longrightarrow>
        network_cycle env =
          (map (\<lambda>c. case_prod TcpConnection (projr (local_endpoint c))) tcp @
           map (\<lambda>c. case_prod UdpConnection (projr (local_endpoint c))) before,
           Some ValueError) \<and>
        monitor_network (env # envs) = network_cycle env)"
proof -
  note bad = local_endpoint_malformed [OF assms]
  have a: "log_connections mk (before @ conn # after) =
      (map (\<lambda>c. case_prod mk (projr (local_endpoint c))) before, Some ValueError)"
    if "\<forall>c\<in>set before. \<not> isl (local_endpoint c)" for mk
    using log_connections_abort [OF that bad] .
  have b: "network_cycle env =
        (map (\<lambda>c. case_prod TcpConnection (projr (local_endpoint c))) before,
         Some ValueError) \<and>
      monitor_network (env # envs) = network_cycle env"
    if "proc_net env ''tcp'' = Inr (header # before @ conn # after)"
      "proc_net env ''udp'' = Inr udp_lines"
      "\<forall>c\<in>set before. \<not> isl (local_endpoint c)"
  proof -
    have "network_cycle env =
        (map (\<lambda>c. case_prod TcpConnection (projr (local_endpoint c))) before,
         Some ValueError)"
      using that(1,2) a [OF that(3), of TcpConnection]
      by (simp add: network_cycle_def read_connections_def)
    then show ?thesis by simp
  qed
  have c: "network_cycle env =
        (map (\<lambda>c. case_prod TcpConnection (projr (local_endpoint c))) tcp @
         map (\<lambda>c. case_prod UdpConnection (projr (local_endpoint c))) before,
         Some ValueError) \<and>
      monitor_network (env # envs) = network_cycle env"
    if "proc_net env ''tcp'' = Inr (header # tcp)"
      "\<forall>c\<in>set tcp. \<not> isl (local_endpoint c)"
      "proc_net env ''udp'' = Inr (header' # before @ conn # after)"
      "\<forall>c\<in>set before. \<not> isl (local_endpoint c)"
  proof -
    have "network_cycle env =
        (map (\<lambda>c. case_prod TcpConnection (projr (local_endpoint c))) tcp @
         map (\<lambda>c. case_prod UdpConnection (projr (local_endpoint c))) before,
         Some ValueError)"
      using that(1,3) a [OF that(4), of UdpConnection]
        log_connections_all [OF that(2), of TcpConnection]
      by (simp add: network_cycle_def read_connections_def)
    then show ?thesis by simp
  qed
  from a b c show ?thesis by blast
qed

theorem malformed_line_ends_cycle_witness:
  "py_split '':'' (py_split_ws ''   1: 0100007F0277 00000000:0000 0A'' ! 1) = [''0100007F0277''] \<and>
   network_cycle example_net_env = ([TcpConnection ''127.0.0.1'' 631], Some ValueError) \<and>
   monitor_network [example_net_env, example_net_env] =
     ([TcpConnection ''127.0.0.1'' 631], Some ValueError)"
proof -
  let ?bad = "''   1: 0100007F0277 00000000:0000 0A''"
  let ?good = "''   0: 0100007F:0277 00000000:0000 0A''"
  have f: "py_split '':'' (py_split_ws ?bad ! 1) = [''0100007F0277'']"
    by code_simp
  have l: "2 \<le> length (py_split_ws ?bad)"
    by code_simp
  have n: "length (py_split '':'' (py_split_ws ?bad ! 1)) \<noteq> 2"
    unfolding f by simp
  have g: "local_endpoint ?good = Inr (''127.0.0.1'', 631)"
    by code_simp
  have ok: "\<forall>c\<in>set [?good]. \<not> isl (local_endpoint c)"
    by (simp add: g)
  have tcp: "proc_net example_net_env ''tcp'' =
      Inr (''  sl  local_address rem_address   st'' # [?good] @ ?bad #
        [''   2: 00000000:0016 00000000:0000 0A''])"
    by (simp add: example_net_env_def)
  have udp: "proc_net example_net_env ''udp'' = Inr [''  sl  local_address rem_address   st'']"
    by (simp add: example_net_env_def)
  from malformed_line_ends_cycle [OF l n, THEN conjunct2, THEN conjunct1, rule_format,
      OF conjI [OF tcp conjI [OF udp ok]], of "[example_net_env]"]
  have "network_cycle example_net_env = ([TcpConnection ''127.0.0.1'' 631], Some ValueError) \<and>
      monitor_network [example_net_env, example_net_env] = network_cycle example_net_env"
    by (simp add: g)
  with f show ?thesis by simp
qed

text \<open>
  The claim as the specification states it fails: in the cycle of \<open>example_net_env\<close> the
  second TCP record has no colon in its local-endpoint field; the cycle ends with
  \<open>ValueError\<close>, and the third record, which is well formed, is not logged.
\<close>

theorem malformed_line_not_skipped_counterexample:
  "py_split '':'' (py_split_ws ''   1: 0100007F0277 00000000:0000 0A'' ! 1) = [''0100007F0277''] \<and>
   local_endpoint ''   2: 00000000:0016 00000000:0000 0A'' = Inr (''0.0.0.0'', 22) \<and>
   network_cycle example_net_env = ([TcpConnection ''127.0.0.1'' 631], Some ValueError)"
  by code_simp

section \<open>Properties of the entry point\<close>

text \<open>
  Claim C9. When the root-path argument is missing, or names nothing that exists, or
  names something that is not a directory, \<open>main\<close> prints a message and exits with
  status 1, and no thread and no observer has been started.
\<close>

theorem main_rejects_bad_root:
  assumes "length argv < 2 \<or> \<not> os_path_exists fs (argv ! 1) \<or> \<not> os_path_isdir fs (argv ! 1)"
  shows
    "main argv fs =
       [Print (if length argv < 2 then UsageMessage else PathErrorMessage (argv ! 1)),
        SysExit 1] \<and>
     exit_status (main argv fs) = Some 1 \<and>
     filter starts_observer (main argv fs) = []"
  using assms by (auto simp: main_def)

theorem main_rejects_bad_root_witness:
  "main [''audit_tool.py''] Map.empty = [Print UsageMessage, SysExit 1] \<and>
   exit_status (main [''audit_tool.py''] Map.empty) = Some 1 \<and>
   filter starts_observer (main [''audit_tool.py''] Map.empty) = [] \<and>
   main [''audit_tool.py'', ''/etc/passwd''] [''/etc/passwd'' \<mapsto> File] =
     [Print (PathErrorMessage ''/etc/passwd''), SysExit 1] \<and>
   filter starts_observer (main [''audit_tool.py'', ''/etc/passwd''] [''/etc/passwd'' \<mapsto> File]) = [] \<and>
   main [''audit_tool.py'', ''/nowhere''] Map.empty =
     [Print (PathErrorMessage ''/nowhere''), SysExit 1]"
proof -
  have a: "length [''audit_tool.py''] < 2"
    by simp
  have b: "\<not> os_path_isdir [''/etc/passwd'' \<mapsto> File] ([''audit_tool.py'', ''/etc/passwd''] ! 1)"
    by (simp add: os_path_isdir_def)
  have c: "\<not> os_path_exists Map.empty ([''audit_tool.py'', ''/nowhere''] ! 1)"
    by (simp add: os_path_exists_def)
  show ?thesis
    using main_rejects_bad_root [of "[''audit_tool.py'']" Map.empty, OF disjI1, OF a]
      main_rejects_bad_root [of "[''audit_tool.py'', ''/etc/passwd'']"
        "[''/etc/passwd'' \<mapsto> File]", OF disjI2, OF disjI2, OF b]
      main_rejects_bad_root [of "[''audit_tool.py'', ''/nowhere'']" Map.empty,
        OF disjI2, OF disjI1, OF c]
    by simp
qed

end
